theory Spec2Isabelle
  imports Main
begin

section \<open>JavaScript values read by the components\<close>

text \<open>
  The primitive values that the Redux selectors of \<open>Circuit.js\<close> hand to the
  components. Numbers are the integers (the job counters and whole seconds of the
  dashboard overview) and \<open>NaN\<close>; positive and negative zero are one value. On these
  values \<open>Object.is\<close>, which React uses to compare effect dependencies, is equality.
\<close>

datatype jsval =
    JUndefined
  | JNull
  | JBool bool
  | JNum int
  | JNaN
  | JStr string

text \<open>
  The value selected as \<open>state.dashboard.dashboardOverview\<close>: a primitive (among them
  \<open>undefined\<close> and \<open>null\<close>) or an object, given by its own properties.
\<close>

datatype jsref =
    Prim jsval
  | Obj "string \<rightharpoonup> jsval"

datatype exn = TypeError

text \<open>\<open>ToBoolean\<close>: what \<open>!v\<close>, \<open>v ? a : b\<close>, \<open>v || w\<close> and \<open>Boolean(v)\<close> test.\<close>

fun to_boolean :: "jsval \<Rightarrow> bool" where
  "to_boolean JUndefined = False"
| "to_boolean JNull = False"
| "to_boolean (JBool b) = b"
| "to_boolean (JNum n) = (n \<noteq> 0)"
| "to_boolean JNaN = False"
| "to_boolean (JStr s) = (s \<noteq> [])"

fun truthy_ref :: "jsref \<Rightarrow> bool" where
  "truthy_ref (Prim v) = to_boolean v"
| "truthy_ref (Obj m) = True"

text \<open>
  \<open>o.k\<close>: reading a property of \<open>undefined\<close> or \<open>null\<close> throws a TypeError; a property
  an object does not have is \<open>undefined\<close>; so is, on a number, string or boolean, each
  of the four property names the dashboard card reads.
\<close>

fun get_prop :: "jsref \<Rightarrow> string \<Rightarrow> exn + jsval" where
  "get_prop (Prim JUndefined) k = Inl TypeError"
| "get_prop (Prim JNull) k = Inl TypeError"
| "get_prop (Prim v) k = Inr JUndefined"
| "get_prop (Obj m) k = Inr (case m k of None \<Rightarrow> JUndefined | Some v \<Rightarrow> v)"

text \<open>\<open>o?.k\<close>: \<open>undefined\<close> when \<open>o\<close> is \<open>undefined\<close> or \<open>null\<close>, else \<open>o.k\<close>.\<close>

fun opt_prop :: "jsref \<Rightarrow> string \<Rightarrow> exn + jsval" where
  "opt_prop (Prim JUndefined) k = Inr JUndefined"
| "opt_prop (Prim JNull) k = Inr JUndefined"
| "opt_prop r k = get_prop r k"

text \<open>\<open>a || b\<close> on values.\<close>

definition js_or :: "jsval \<Rightarrow> jsval \<Rightarrow> jsval" where
  "js_or a b = (if to_boolean a then a else b)"

text \<open>Sequencing of evaluations that may throw.\<close>

definition and_then :: "exn + 'a \<Rightarrow> ('a \<Rightarrow> exn + 'b) \<Rightarrow> exn + 'b" where
  "and_then r f = (case r of Inl e \<Rightarrow> Inl e | Inr x \<Rightarrow> f x)"

section \<open>What React writes for a child\<close>

fun digit_chars :: "nat \<Rightarrow> string" where
  "digit_chars n =
     (if n < 10 then [''0123456789'' ! n]
      else digit_chars (n div 10) @ [''0123456789'' ! (n mod 10)])"

declare digit_chars.simps [simp del]

text \<open>\<open>String(n)\<close> for an integer below \<open>10^21\<close> in absolute value: its decimal digits.\<close>

definition number_to_string :: "int \<Rightarrow> string" where
  "number_to_string n =
     (if n < 0 then CHR ''-'' # digit_chars (nat (- n)) else digit_chars (nat n))"

text \<open>
  The text of a child \<open>{v}\<close>: a string is written as it is, a number through
  \<open>String\<close>; \<open>undefined\<close>, \<open>null\<close> and booleans write nothing.
\<close>

fun react_text :: "jsval \<Rightarrow> string" where
  "react_text (JStr s) = s"
| "react_text (JNum n) = number_to_string n"
| "react_text JNaN = ''NaN''"
| "react_text v = []"

section \<open>DashBoardCardItems\<close>

text \<open>The child of the first \<open>Typography\<close> of a card item: the skeleton or a value.\<close>

datatype node =
    Skeleton
  | Child jsval

text \<open>
  \<^verbatim>\<open>isSkeletonPresent ? <Skeleton/> : content || content === 0 ? content : 'N/A'\<close>
\<close>

definition DashBoardCardItems :: "jsval \<Rightarrow> bool \<Rightarrow> node" where
  "DashBoardCardItems content isSkeletonPresent =
     (if isSkeletonPresent then Skeleton
      else if to_boolean content \<or> content = JNum 0 then Child content
      else Child (JStr ''N/A''))"

text \<open>What the user reads in an item: \<open>None\<close> stands for the skeleton.\<close>

fun shown :: "node \<Rightarrow> string option" where
  "shown Skeleton = None"
| "shown (Child v) = Some (react_text v)"

section \<open>DashboardCard: the rendered card\<close>

text \<open>
  The values the four selectors of \<open>DashboardCard\<close> return in one render, under the
  names the component gives them.
\<close>

record selected =
  callSocketApi :: jsval
  dashboardStats :: jsref
  isError :: jsval
  isDeleted :: jsval

text \<open>
  The element \<open>DashboardCard\<close> returns: the \<open>open\<close> property of the snackbar and the
  four items, in the order of the source.
\<close>

record card_view =
  snackbar_open :: bool
  jobs_running :: node
  jobs_done :: node
  latest_status :: node
  dispatcher_duration :: node

text \<open>
  The \<open>content\<close> of the fourth item:
  \<^verbatim>\<open>dashboardStats?.total_dispatcher_duration
      ? secondsToHms(dashboardStats.total_dispatcher_duration) : 'N/A'\<close>
\<close>

definition duration_content :: "(jsval \<Rightarrow> jsval) \<Rightarrow> jsref \<Rightarrow> exn + jsval" where
  "duration_content secondsToHms stats =
     and_then (opt_prop stats ''total_dispatcher_duration'') (\<lambda>d.
       if to_boolean d
       then and_then (get_prop stats ''total_dispatcher_duration'') (\<lambda>d'. Inr (secondsToHms d'))
       else Inr (JStr ''N/A''))"

text \<open>
  The \<open>return\<close> of \<open>DashboardCard\<close>. \<open>statusLabel\<close> and \<open>secondsToHms\<close> are imported
  from \<open>utils/misc\<close> and are parameters here. The properties of the items are
  evaluated in the order of the source, so the first read that throws ends the render.
\<close>

definition DashboardCard ::
  "(jsval \<Rightarrow> jsval) \<Rightarrow> (jsval \<Rightarrow> jsval) \<Rightarrow> selected \<Rightarrow> bool \<Rightarrow> exn + card_view" where
  "DashboardCard statusLabel secondsToHms sel openSnackbar =
     (let stats = dashboardStats sel; skel = \<not> truthy_ref stats in
      and_then (get_prop stats ''total_jobs_running'') (\<lambda>running.
      and_then (get_prop stats ''total_jobs_completed'') (\<lambda>completed.
      and_then (get_prop stats ''latest_running_task_status'') (\<lambda>status.
      and_then (duration_content secondsToHms stats) (\<lambda>duration.
        Inr \<lparr> snackbar_open = openSnackbar,
              jobs_running = DashBoardCardItems running skel,
              jobs_done = DashBoardCardItems completed skel,
              latest_status = DashBoardCardItems (js_or (statusLabel status) (JStr ''N/A'')) skel,
              dispatcher_duration = DashBoardCardItems duration skel \<rparr>)))))"

text \<open>One item of a render that may have thrown: the node, and what the user reads.\<close>

definition item :: "(card_view \<Rightarrow> node) \<Rightarrow> exn + card_view \<Rightarrow> exn + node" where
  "item f r = and_then r (\<lambda>v. Inr (f v))"

definition shown_item :: "(card_view \<Rightarrow> node) \<Rightarrow> exn + card_view \<Rightarrow> exn + string option" where
  "shown_item f r = and_then r (\<lambda>v. Inr (shown (f v)))"

text \<open>The stats values whose properties cannot be read.\<close>

fun nullish :: "jsref \<Rightarrow> bool" where
  "nullish (Prim JUndefined) = True"
| "nullish (Prim JNull) = True"
| "nullish r = False"

section \<open>DashboardCard: state and effects\<close>

text \<open>
  The state React keeps for one mounted \<open>DashboardCard\<close>: the \<open>useState\<close> cell, the
  dependency arrays of the two effects as of the last committed render, and the number
  of \<open>dispatch(fetchDashboardOverview())\<close> calls made so far.
\<close>

record card =
  openSnackbar :: bool
  fetches :: nat
  fetchDeps :: "jsval \<times> jsval"
  errorDeps :: jsval

definition setOpenSnackbar :: "bool \<Rightarrow> card \<Rightarrow> card" where
  "setOpenSnackbar b s = s\<lparr>openSnackbar := b\<rparr>"

definition fetchDashboardOverviewResult :: "card \<Rightarrow> card" where
  "fetchDashboardOverviewResult s = s\<lparr>fetches := Suc (fetches s)\<rparr>"

text \<open>The body of the second effect: \<^verbatim>\<open>if (isError) setOpenSnackbar(true)\<close>.\<close>

definition error_effect :: "jsval \<Rightarrow> card \<Rightarrow> card" where
  "error_effect err s = (if to_boolean err then setOpenSnackbar True s else s)"

text \<open>
  After a render is committed React runs, in the order of the source, each effect
  whose dependency array has an element that differs from the previous render's; after
  the first render it runs both. The arrays are \<open>[isDeleted, callSocketApi]\<close> and
  \<open>[isError]\<close>.
\<close>

definition commit :: "bool \<Rightarrow> selected \<Rightarrow> card \<Rightarrow> card" where
  "commit first sel s =
     (let s1 = (if first \<or> fst (fetchDeps s) \<noteq> isDeleted sel \<or> snd (fetchDeps s) \<noteq> callSocketApi sel
                then fetchDashboardOverviewResult s else s);
          s2 = (if first \<or> errorDeps s \<noteq> isError sel
                then error_effect (isError sel) s1 else s1)
      in s2\<lparr>fetchDeps := (isDeleted sel, callSocketApi sel), errorDeps := isError sel\<rparr>)"

text \<open>\<^verbatim>\<open>useState(Boolean(isError))\<close> at the first render; nothing has been fetched yet.\<close>

definition initial_card :: "selected \<Rightarrow> card" where
  "initial_card sel =
     \<lparr> openSnackbar = to_boolean (isError sel), fetches = 0,
       fetchDeps = (isDeleted sel, callSocketApi sel), errorDeps = isError sel \<rparr>"

text \<open>
  Mounting: the first render, then the effects. A render that throws commits nothing.
  When an effect changes \<open>openSnackbar\<close>, React renders once more with the same selected
  values: the same reads succeed again and no dependency has changed, so that render
  adds nothing to the state.
\<close>

definition mount :: "(jsval \<Rightarrow> jsval) \<Rightarrow> (jsval \<Rightarrow> jsval) \<Rightarrow> selected \<Rightarrow> exn + card" where
  "mount statusLabel secondsToHms sel =
     and_then (DashboardCard statusLabel secondsToHms sel (openSnackbar (initial_card sel)))
       (\<lambda>v. Inr (commit True sel (initial_card sel)))"

text \<open>A later render, caused by new values from the selectors.\<close>

definition rerender ::
  "(jsval \<Rightarrow> jsval) \<Rightarrow> (jsval \<Rightarrow> jsval) \<Rightarrow> selected \<Rightarrow> card \<Rightarrow> exn + card" where
  "rerender statusLabel secondsToHms sel s =
     and_then (DashboardCard statusLabel secondsToHms sel (openSnackbar s))
       (\<lambda>v. Inr (commit False sel s))"

text \<open>
  What happens to a mounted card: the store hands new values to the selectors, the
  snackbar calls \<open>onClose\<close> (after its \<open>autoHideDuration\<close> or for another reason of its
  own), or the user clicks the close icon. Both handlers are
  \<^verbatim>\<open>() => setOpenSnackbar(false)\<close>.
\<close>

datatype event =
    StoreChange selected
  | SnackbarOnClose
  | CloseIconClick

fun step :: "(jsval \<Rightarrow> jsval) \<Rightarrow> (jsval \<Rightarrow> jsval) \<Rightarrow> card \<Rightarrow> event \<Rightarrow> exn + card" where
  "step statusLabel secondsToHms s (StoreChange sel) = rerender statusLabel secondsToHms sel s"
| "step statusLabel secondsToHms s SnackbarOnClose = Inr (setOpenSnackbar False s)"
| "step statusLabel secondsToHms s CloseIconClick = Inr (setOpenSnackbar False s)"

fun run :: "(jsval \<Rightarrow> jsval) \<Rightarrow> (jsval \<Rightarrow> jsval) \<Rightarrow> card \<Rightarrow> event list \<Rightarrow> exn + card" where
  "run statusLabel secondsToHms s [] = Inr s"
| "run statusLabel secondsToHms s (e # es) =
     (case step statusLabel secondsToHms s e of
        Inl x \<Rightarrow> Inl x
      | Inr s' \<Rightarrow> run statusLabel secondsToHms s' es)"

text \<open>A card from its mounting through a list of events.\<close>

definition lifetime ::
  "(jsval \<Rightarrow> jsval) \<Rightarrow> (jsval \<Rightarrow> jsval) \<Rightarrow> selected \<Rightarrow> event list \<Rightarrow> exn + card" where
  "lifetime statusLabel secondsToHms sel evs =
     and_then (mount statusLabel secondsToHms sel) (\<lambda>s. run statusLabel secondsToHms s evs)"

text \<open>A component of the final state of a run that may have thrown.\<close>

definition final :: "(card \<Rightarrow> 'a) \<Rightarrow> exn + card \<Rightarrow> exn + 'a" where
  "final f r = and_then r (\<lambda>s. Inr (f s))"

subsection \<open>Notions the statements below use\<close>

text \<open>The selected values the card is rendered with after its mounting, in order.\<close>

fun snapshots :: "event list \<Rightarrow> selected list" where
  "snapshots [] = []"
| "snapshots (StoreChange sel # es) = sel # snapshots es"
| "snapshots (e # es) = snapshots es"

text \<open>
  The number of renders of a list at which at least one of the two trigger signals has
  a value other than at the previous render: a render at which both have changed
  counts once.
\<close>

fun trigger_changes :: "jsval \<Rightarrow> jsval \<Rightarrow> selected list \<Rightarrow> nat" where
  "trigger_changes del sock [] = 0"
| "trigger_changes del sock (x # xs) =
     (if isDeleted x \<noteq> del \<or> callSocketApi x \<noteq> sock then 1 else 0)
       + trigger_changes (isDeleted x) (callSocketApi x) xs"

text \<open>
  The number of value-changing transitions of either trigger signal, each signal
  counted on its own: a render at which both have changed counts twice.
\<close>

fun signal_transitions :: "jsval \<Rightarrow> jsval \<Rightarrow> selected list \<Rightarrow> nat" where
  "signal_transitions del sock [] = 0"
| "signal_transitions del sock (x # xs) =
     (if isDeleted x \<noteq> del then 1 else 0) + (if callSocketApi x \<noteq> sock then 1 else 0)
       + signal_transitions (isDeleted x) (callSocketApi x) xs"

text \<open>Whether a list of renders has one at which both trigger signals have changed.\<close>

fun flips_both :: "jsval \<Rightarrow> jsval \<Rightarrow> selected list \<Rightarrow> bool" where
  "flips_both del sock [] = False"
| "flips_both del sock (x # xs) =
     ((isDeleted x \<noteq> del \<and> callSocketApi x \<noteq> sock)
      \<or> flips_both (isDeleted x) (callSocketApi x) xs)"

text \<open>A falsy-to-truthy transition of the error flag between two renders.\<close>

definition rising_edge :: "jsval \<Rightarrow> jsval \<Rightarrow> bool" where
  "rising_edge prev new = (\<not> to_boolean prev \<and> to_boolean new)"

text \<open>Whether a list of renders, entered with the flag \<open>prev\<close>, has such a transition.\<close>

fun has_rising_edge :: "jsval \<Rightarrow> selected list \<Rightarrow> bool" where
  "has_rising_edge prev [] = False"
| "has_rising_edge prev (x # xs) =
     (rising_edge prev (isError x) \<or> has_rising_edge (isError x) xs)"

text \<open>Whether in a list of renders the flag takes a new value that is truthy.\<close>

fun has_truthy_change :: "jsval \<Rightarrow> selected list \<Rightarrow> bool" where
  "has_truthy_change prev [] = False"
| "has_truthy_change prev (x # xs) =
     ((isError x \<noteq> prev \<and> to_boolean (isError x)) \<or> has_truthy_change (isError x) xs)"

text \<open>
  The two-state notifier read as edge-triggered in the strict sense: a render makes it
  visible when the flag was falsy at the previous render and is truthy now; a
  dismissal hides it.
\<close>

fun edge_notifier :: "jsval \<Rightarrow> bool \<Rightarrow> event list \<Rightarrow> bool" where
  "edge_notifier prev vis [] = vis"
| "edge_notifier prev vis (StoreChange sel # es) =
     edge_notifier (isError sel) (vis \<or> rising_edge prev (isError sel)) es"
| "edge_notifier prev vis (e # es) = edge_notifier prev False es"

text \<open>
  The two-state notifier triggered by a change of value: a render makes it visible
  when the flag differs from the previous render's and is truthy; a dismissal hides it.
\<close>

fun change_notifier :: "jsval \<Rightarrow> bool \<Rightarrow> event list \<Rightarrow> bool" where
  "change_notifier prev vis [] = vis"
| "change_notifier prev vis (StoreChange sel # es) =
     change_notifier (isError sel)
       (vis \<or> (isError sel \<noteq> prev \<and> to_boolean (isError sel))) es"
| "change_notifier prev vis (e # es) = change_notifier prev False es"

text \<open>A flag that is a boolean.\<close>

fun is_bool :: "jsval \<Rightarrow> bool" where
  "is_bool (JBool b) = True"
| "is_bool v = False"

text \<open>A render whose stats can be read: they are neither \<open>undefined\<close> nor \<open>null\<close>.\<close>

definition readable :: "selected \<Rightarrow> bool" where
  "readable sel = (\<not> nullish (dashboardStats sel))"

subsection \<open>Concrete inputs\<close>

text \<open>An overview with nothing running and no time spent, and one with no property.\<close>

definition stats_idle :: "string \<rightharpoonup> jsval" where
  "stats_idle =
     [''total_jobs_running'' \<mapsto> JNum 0, ''total_jobs_completed'' \<mapsto> JNum 7,
      ''latest_running_task_status'' \<mapsto> JStr ''COMPLETED'',
      ''total_dispatcher_duration'' \<mapsto> JNum 0]"

definition sel_idle :: selected where
  "sel_idle = \<lparr> callSocketApi = JBool False, dashboardStats = Obj stats_idle,
                isError = JNull, isDeleted = JBool False \<rparr>"

definition sel_blank :: selected where
  "sel_blank = \<lparr> callSocketApi = JBool False, dashboardStats = Obj Map.empty,
                 isError = JNull, isDeleted = JBool False \<rparr>"

text \<open>The same overview with the socket signal flipped, and with the deletion signal flipped.\<close>

definition sel_socket :: selected where
  "sel_socket = sel_idle\<lparr>callSocketApi := JBool True\<rparr>"

definition sel_deleted :: selected where
  "sel_deleted = sel_idle\<lparr>isDeleted := JBool True\<rparr>"

text \<open>The same overview seen after both signals have flipped.\<close>

definition sel_socket_deleted :: selected where
  "sel_socket_deleted = sel_idle\<lparr>callSocketApi := JBool True, isDeleted := JBool True\<rparr>"

text \<open>Two renders with different error messages, and two with different status codes.\<close>

definition sel_timeout :: selected where
  "sel_timeout = sel_blank\<lparr>isError := JStr ''timeout''\<rparr>"

definition sel_refused :: selected where
  "sel_refused = sel_blank\<lparr>isError := JStr ''connection refused''\<rparr>"

definition sel_500 :: selected where
  "sel_500 = sel_idle\<lparr>isError := JNum 500\<rparr>"

definition sel_503 :: selected where
  "sel_503 = sel_idle\<lparr>isError := JNum 503\<rparr>"

definition sel_failed :: selected where
  "sel_failed = sel_idle\<lparr>isError := JBool True\<rparr>"

section \<open>Circuit: the preview modal\<close>

text \<open>
  \<open>Circuit\<close> keeps one state cell, \<^verbatim>\<open>useState(false)\<close>, passed to the modal as its
  \<open>open\<close> property. Its handlers are the modal's \<open>onClose\<close> and the click on the close
  icon's \<open>span\<close>, both \<open>handleClose\<close>; a new render with other properties or another
  fetching flag leaves the cell as it is.
\<close>

record circuit =
  openModal :: bool

definition circuit_initial :: circuit where
  "circuit_initial = \<lparr> openModal = False \<rparr>"

definition handleClose :: "circuit \<Rightarrow> circuit" where
  "handleClose c = c\<lparr>openModal := False\<rparr>"

datatype circuit_event =
    ModalOnClose
  | CloseSpanClick
  | CircuitRerender "string \<rightharpoonup> jsval" bool

fun circuit_step :: "circuit \<Rightarrow> circuit_event \<Rightarrow> circuit" where
  "circuit_step c ModalOnClose = handleClose c"
| "circuit_step c CloseSpanClick = handleClose c"
| "circuit_step c (CircuitRerender circuitDetails isFetching) = c"

definition circuit_run :: "circuit_event list \<Rightarrow> circuit" where
  "circuit_run evs = foldl circuit_step circuit_initial evs"

text \<open>The \<open>open\<close> property \<open>Circuit\<close> gives the modal.\<close>

definition modal_open :: "circuit \<Rightarrow> bool" where
  "modal_open c = openModal c"

section \<open>Reading the stats\<close>

lemma get_prop_readable:
  "\<not> nullish r \<Longrightarrow>
   get_prop r k =
     Inr (case r of Prim v \<Rightarrow> JUndefined
          | Obj m \<Rightarrow> (case m k of None \<Rightarrow> JUndefined | Some v \<Rightarrow> v))"
  by (cases "(r, k)" rule: get_prop.cases) auto

lemma get_prop_nullish: "nullish r \<Longrightarrow> get_prop r k = Inl TypeError"
  by (cases "(r, k)" rule: get_prop.cases) auto

lemma opt_prop_readable: "\<not> nullish r \<Longrightarrow> opt_prop r k = get_prop r k"
  by (cases "(r, k)" rule: opt_prop.cases) auto

lemma duration_content_Obj:
  "duration_content hms (Obj m) =
     (let d = (case m ''total_dispatcher_duration'' of None \<Rightarrow> JUndefined | Some v \<Rightarrow> v)
      in if to_boolean d then Inr (hms d) else Inr (JStr ''N/A''))"
  by (simp add: duration_content_def and_then_def Let_def)

lemma duration_content_readable: "\<not> nullish r \<Longrightarrow> \<exists>d. duration_content hms r = Inr d"
  by (auto simp: duration_content_def and_then_def opt_prop_readable get_prop_readable)

lemma DashboardCard_nullish:
  "nullish (dashboardStats sel) \<Longrightarrow> DashboardCard sl hms sel b = Inl TypeError"
  by (simp add: DashboardCard_def Let_def and_then_def get_prop_nullish)

lemma DashboardCard_readable:
  "\<not> nullish (dashboardStats sel) \<Longrightarrow> \<exists>v. DashboardCard sl hms sel b = Inr v"
  using duration_content_readable [of "dashboardStats sel" hms]
  by (auto simp: DashboardCard_def Let_def and_then_def get_prop_readable)

text \<open>With an object for stats no item is a skeleton, and every read succeeds.\<close>

lemma DashboardCard_Obj:
  "dashboardStats sel = Obj m \<Longrightarrow>
   DashboardCard sl hms sel b =
     and_then (duration_content hms (Obj m)) (\<lambda>duration.
       Inr \<lparr> snackbar_open = b,
             jobs_running = DashBoardCardItems
               (case m ''total_jobs_running'' of None \<Rightarrow> JUndefined | Some v \<Rightarrow> v) False,
             jobs_done = DashBoardCardItems
               (case m ''total_jobs_completed'' of None \<Rightarrow> JUndefined | Some v \<Rightarrow> v) False,
             latest_status = DashBoardCardItems
               (js_or (sl (case m ''latest_running_task_status'' of
                             None \<Rightarrow> JUndefined | Some v \<Rightarrow> v)) (JStr ''N/A'')) False,
             dispatcher_duration = DashBoardCardItems duration False \<rparr>)"
  by (simp add: DashboardCard_def Let_def and_then_def split: sum.splits)

lemma Obj_never_throws: "dashboardStats sel = Obj m \<Longrightarrow> \<exists>v. DashboardCard sl hms sel b = Inr v"
  by (rule DashboardCard_readable) simp

lemma jobs_running_Obj:
  "dashboardStats sel = Obj m \<Longrightarrow>
   item jobs_running (DashboardCard sl hms sel b) =
     Inr (DashBoardCardItems
            (case m ''total_jobs_running'' of None \<Rightarrow> JUndefined | Some v \<Rightarrow> v) False)"
  by (simp add: DashboardCard_Obj duration_content_Obj item_def and_then_def Let_def)

lemma dispatcher_duration_Obj:
  "dashboardStats sel = Obj m \<Longrightarrow>
   item dispatcher_duration (DashboardCard sl hms sel b) =
     and_then (duration_content hms (Obj m)) (\<lambda>d. Inr (DashBoardCardItems d False))"
  by (simp add: DashboardCard_Obj item_def and_then_def split: sum.splits)

lemma shown_item_eq: "shown_item f r = and_then (item f r) (\<lambda>n. Inr (shown n))"
  by (simp add: shown_item_def item_def and_then_def split: sum.splits)

lemma number_to_string_0: "number_to_string 0 = ''0''"
  by (simp add: number_to_string_def digit_chars.simps)

section \<open>The four metrics\<close>

text \<open>
  C7. For every stats object whose \<open>total_jobs_running\<close> is the number 0, the item
  "Total jobs running" holds the number itself, which is written as the string "0"
  and not as "N/A".
\<close>

theorem zero_jobs_running_shows_0:
  assumes "dashboardStats sel = Obj m"
    and "m ''total_jobs_running'' = Some (JNum 0)"
  shows "item jobs_running (DashboardCard statusLabel secondsToHms sel b) = Inr (Child (JNum 0))
         \<and> shown_item jobs_running (DashboardCard statusLabel secondsToHms sel b) = Inr (Some ''0'')"
proof -
  have "item jobs_running (DashboardCard statusLabel secondsToHms sel b) = Inr (Child (JNum 0))"
    using assms by (simp add: jobs_running_Obj DashBoardCardItems_def)
  then show ?thesis
    by (simp add: shown_item_eq and_then_def number_to_string_0)
qed

theorem zero_jobs_running_shows_0_witness:
  "dashboardStats sel_idle = Obj stats_idle
   \<and> stats_idle ''total_jobs_running'' = Some (JNum 0)
   \<and> shown_item jobs_running (DashboardCard id id sel_idle False) = Inr (Some ''0'')"
proof -
  have 1: "dashboardStats sel_idle = Obj stats_idle" by (simp add: sel_idle_def)
  have 2: "stats_idle ''total_jobs_running'' = Some (JNum 0)" by (simp add: stats_idle_def)
  from zero_jobs_running_shows_0 [OF 1 2] 1 2 show ?thesis by simp
qed

text \<open>
  C2, as the claim states it, fails: with a stats object that has no
  \<open>total_jobs_running\<close> the item is not the skeleton; it holds the string "N/A".
\<close>

theorem undefined_jobs_running_counterexample:
  "get_prop (dashboardStats sel_blank) ''total_jobs_running'' = Inr JUndefined
   \<and> item jobs_running (DashboardCard id id sel_blank False) = Inr (Child (JStr ''N/A''))
   \<and> item jobs_running (DashboardCard id id sel_blank False) \<noteq> Inr Skeleton"
  by (simp add: sel_blank_def jobs_running_Obj DashBoardCardItems_def)

text \<open>
  C2, amended. For every stats object that is present and whose \<open>total_jobs_running\<close>
  reads as \<open>undefined\<close>, the item "Total jobs running" shows the literal "N/A": neither
  the loading placeholder nor "0".
\<close>

theorem undefined_jobs_running_shows_NA:
  assumes "dashboardStats sel = Obj m"
    and "get_prop (Obj m) ''total_jobs_running'' = Inr JUndefined"
  shows "shown_item jobs_running (DashboardCard statusLabel secondsToHms sel b) = Inr (Some ''N/A'')"
proof -
  from assms(2)
  have "(case m ''total_jobs_running'' of None \<Rightarrow> JUndefined | Some v \<Rightarrow> v) = JUndefined"
    by simp
  with assms(1)
  have "item jobs_running (DashboardCard statusLabel secondsToHms sel b) = Inr (Child (JStr ''N/A''))"
    by (simp add: jobs_running_Obj DashBoardCardItems_def)
  then show ?thesis by (simp add: shown_item_eq and_then_def)
qed

theorem undefined_jobs_running_shows_NA_witness:
  "dashboardStats sel_blank = Obj Map.empty
   \<and> get_prop (Obj Map.empty) ''total_jobs_running'' = Inr JUndefined
   \<and> shown_item jobs_running (DashboardCard id id sel_blank True) = Inr (Some ''N/A'')"
proof -
  have 1: "dashboardStats sel_blank = Obj Map.empty" by (simp add: sel_blank_def)
  have 2: "get_prop (Obj Map.empty) ''total_jobs_running'' = Inr JUndefined" by simp
  from undefined_jobs_running_shows_NA [OF 1 2] 1 2 show ?thesis by simp
qed

text \<open>
  C3. The claim asks that rendering never throws, whatever the stats are. With
  \<open>undefined\<close> or \<open>null\<close> for stats the render throws a TypeError at its first read,
  \<open>dashboardStats.total_jobs_running\<close>, although the same render tests
  \<open>!dashboardStats\<close> and reads the duration through \<open>dashboardStats?.\<close>.
\<close>

theorem render_throws_without_stats:
  "DashboardCard statusLabel secondsToHms (sel\<lparr>dashboardStats := Prim JUndefined\<rparr>) b = Inl TypeError
   \<and> DashboardCard statusLabel secondsToHms (sel\<lparr>dashboardStats := Prim JNull\<rparr>) b = Inl TypeError"
  by (simp add: DashboardCard_nullish)

text \<open>
  C8. For every stats object whose \<open>total_dispatcher_duration\<close> is the number 0, the
  content of the duration item is "N/A" whatever \<open>secondsToHms\<close> computes, and the item
  shows "N/A".
\<close>

theorem zero_duration_shows_NA:
  assumes "dashboardStats sel = Obj m"
    and "m ''total_dispatcher_duration'' = Some (JNum 0)"
  shows "duration_content secondsToHms (Obj m) = Inr (JStr ''N/A'')
         \<and> shown_item dispatcher_duration (DashboardCard statusLabel secondsToHms sel b)
             = Inr (Some ''N/A'')"
proof -
  from assms(2) have d: "duration_content secondsToHms (Obj m) = Inr (JStr ''N/A'')"
    by (simp add: duration_content_Obj)
  with assms(1)
  have "item dispatcher_duration (DashboardCard statusLabel secondsToHms sel b)
          = Inr (Child (JStr ''N/A''))"
    by (simp add: dispatcher_duration_Obj and_then_def DashBoardCardItems_def)
  with d show ?thesis by (simp add: shown_item_eq and_then_def)
qed

theorem zero_duration_shows_NA_witness:
  "dashboardStats sel_idle = Obj stats_idle
   \<and> stats_idle ''total_dispatcher_duration'' = Some (JNum 0)
   \<and> shown_item dispatcher_duration (DashboardCard id (\<lambda>d. JStr ''0s'') sel_idle False)
       = Inr (Some ''N/A'')"
proof -
  have 1: "dashboardStats sel_idle = Obj stats_idle" by (simp add: sel_idle_def)
  have 2: "stats_idle ''total_dispatcher_duration'' = Some (JNum 0)" by (simp add: stats_idle_def)
  from zero_duration_shows_NA [OF 1 2] 1 2 show ?thesis by simp
qed

section \<open>The card's effects\<close>

lemma rerender_readable:
  "readable sel \<Longrightarrow> rerender sl hms sel s = Inr (commit False sel s)"
  using DashboardCard_readable [of sel sl hms "openSnackbar s"]
  by (auto simp: rerender_def readable_def and_then_def)

lemma rerender_unreadable:
  "\<not> readable sel \<Longrightarrow> rerender sl hms sel s = Inl TypeError"
  by (simp add: rerender_def readable_def and_then_def DashboardCard_nullish)

lemma mount_readable:
  "readable sel \<Longrightarrow> mount sl hms sel = Inr (commit True sel (initial_card sel))"
  using DashboardCard_readable [of sel sl hms "openSnackbar (initial_card sel)"]
  by (auto simp: mount_def readable_def and_then_def)

lemma fetches_commit:
  "fetches (commit first sel s) =
     fetches s + (if first \<or> isDeleted sel \<noteq> fst (fetchDeps s) \<or> callSocketApi sel \<noteq> snd (fetchDeps s) then 1 else 0)"
  by (auto simp: commit_def Let_def fetchDashboardOverviewResult_def error_effect_def setOpenSnackbar_def)

lemma openSnackbar_commit:
  "openSnackbar (commit first sel s) =
     (openSnackbar s \<or> ((first \<or> isError sel \<noteq> errorDeps s) \<and> to_boolean (isError sel)))"
  by (auto simp: commit_def Let_def fetchDashboardOverviewResult_def error_effect_def setOpenSnackbar_def)

lemma deps_commit:
  "fetchDeps (commit first sel s) = (isDeleted sel, callSocketApi sel)"
  "errorDeps (commit first sel s) = isError sel"
  by (simp_all add: commit_def Let_def)

lemma dismiss_fields:
  "openSnackbar (setOpenSnackbar b s) = b"
  "fetches (setOpenSnackbar b s) = fetches s"
  "fetchDeps (setOpenSnackbar b s) = fetchDeps s"
  "errorDeps (setOpenSnackbar b s) = errorDeps s"
  by (simp_all add: setOpenSnackbar_def)

lemma run_fetches:
  "list_all readable (snapshots evs) \<Longrightarrow>
   \<exists>s'. run sl hms s evs = Inr s'
        \<and> fetches s' = fetches s + trigger_changes (fst (fetchDeps s)) (snd (fetchDeps s)) (snapshots evs)"
proof (induction evs arbitrary: s)
  case Nil
  show ?case by simp
next
  case (Cons e es)
  show ?case
  proof (cases e)
    case (StoreChange sel)
    with Cons.prems have r: "readable sel" and rs: "list_all readable (snapshots es)" by simp_all
    from Cons.IH [OF rs, of "commit False sel s"] StoreChange r
    show ?thesis by (auto simp: rerender_readable fetches_commit deps_commit)
  next
    case SnackbarOnClose
    with Cons.prems have rs: "list_all readable (snapshots es)" by simp
    from Cons.IH [OF rs, of "setOpenSnackbar False s"] SnackbarOnClose
    show ?thesis by (auto simp: dismiss_fields)
  next
    case CloseIconClick
    with Cons.prems have rs: "list_all readable (snapshots es)" by simp
    from Cons.IH [OF rs, of "setOpenSnackbar False s"] CloseIconClick
    show ?thesis by (auto simp: dismiss_fields)
  qed
qed

lemma run_notifier:
  "list_all readable (snapshots evs) \<Longrightarrow>
   \<exists>s'. run sl hms s evs = Inr s'
        \<and> openSnackbar s' = change_notifier (errorDeps s) (openSnackbar s) evs"
proof (induction evs arbitrary: s)
  case Nil
  show ?case by simp
next
  case (Cons e es)
  show ?case
  proof (cases e)
    case (StoreChange sel)
    with Cons.prems have r: "readable sel" and rs: "list_all readable (snapshots es)" by simp_all
    from Cons.IH [OF rs, of "commit False sel s"] StoreChange r
    show ?thesis by (auto simp: rerender_readable openSnackbar_commit deps_commit)
  next
    case SnackbarOnClose
    with Cons.prems have rs: "list_all readable (snapshots es)" by simp
    from Cons.IH [OF rs, of "setOpenSnackbar False s"] SnackbarOnClose
    show ?thesis by (auto simp: dismiss_fields)
  next
    case CloseIconClick
    with Cons.prems have rs: "list_all readable (snapshots es)" by simp
    from Cons.IH [OF rs, of "setOpenSnackbar False s"] CloseIconClick
    show ?thesis by (auto simp: dismiss_fields)
  qed
qed

lemma lifetime_readable:
  "readable sel \<Longrightarrow> lifetime sl hms sel evs = run sl hms (commit True sel (initial_card sel)) evs"
  by (simp add: lifetime_def mount_readable and_then_def)

lemma final_Inr: "r = Inr s \<Longrightarrow> final f r = Inr (f s)"
  by (simp add: final_def and_then_def)

lemma initial_fields:
  "openSnackbar (initial_card sel) = to_boolean (isError sel)"
  "fetches (initial_card sel) = 0"
  "fetchDeps (initial_card sel) = (isDeleted sel, callSocketApi sel)"
  "errorDeps (initial_card sel) = isError sel"
  by (simp_all add: initial_card_def)

lemma change_notifier_stays_hidden:
  "\<not> vis \<Longrightarrow> \<not> has_truthy_change prev (snapshots evs) \<Longrightarrow> \<not> change_notifier prev vis evs"
proof (induction evs arbitrary: prev vis)
  case Nil
  then show ?case by simp
next
  case (Cons e es)
  then show ?case by (cases e) auto
qed

lemma falsy_no_truthy_change:
  "list_all (\<lambda>x. \<not> to_boolean (isError x)) xs \<Longrightarrow> \<not> has_truthy_change prev xs"
  by (induction xs arbitrary: prev) auto

lemma rising_edge_is_change: "rising_edge prev new \<Longrightarrow> new \<noteq> prev \<and> to_boolean new"
  by (auto simp: rising_edge_def)

lemma bool_change_is_rising_edge:
  "is_bool prev \<Longrightarrow> is_bool new \<Longrightarrow> (new \<noteq> prev \<and> to_boolean new) = rising_edge prev new"
  by (cases prev; cases new) (auto simp: rising_edge_def)

lemma change_notifier_bool:
  "is_bool prev \<Longrightarrow> list_all (\<lambda>x. is_bool (isError x)) (snapshots evs) \<Longrightarrow>
   change_notifier prev vis evs = edge_notifier prev vis evs"
proof (induction evs arbitrary: prev vis)
  case Nil
  show ?case by simp
next
  case (Cons e es)
  then show ?case by (cases e) (simp_all add: bool_change_is_rising_edge)
qed

text \<open>A card mounted with stats that cannot be read throws in its first render.\<close>

lemma lifetime_unreadable: "\<not> readable sel \<Longrightarrow> lifetime sl hms sel evs = Inl TypeError"
  by (simp add: lifetime_def mount_def readable_def and_then_def DashboardCard_nullish)

lemma trigger_changes_le: "trigger_changes del sock xs \<le> signal_transitions del sock xs"
proof (induction xs arbitrary: del sock)
  case Nil
  show ?case by simp
next
  case (Cons x xs)
  have "trigger_changes (isDeleted x) (callSocketApi x) xs
          \<le> signal_transitions (isDeleted x) (callSocketApi x) xs"
    by (rule Cons.IH)
  then show ?case by auto
qed

lemma trigger_changes_single:
  "\<not> flips_both del sock xs \<Longrightarrow> trigger_changes del sock xs = signal_transitions del sock xs"
  by (induction xs arbitrary: del sock) auto

text \<open>Either dismissal hides the notification, whatever the state.\<close>

lemma dismissal_hides:
  "final openSnackbar (step sl hms s SnackbarOnClose) = Inr False"
  "final openSnackbar (step sl hms s CloseIconClick) = Inr False"
  by (simp_all add: final_Inr dismiss_fields)

section \<open>Fetching the overview\<close>

text \<open>
  C1, as the claim states it, fails: a render at which both \<open>isDeleted\<close> and
  \<open>callSocketApi\<close> have changed runs the effect once, so the card has dispatched two
  fetches where the claim counts one for the mounting and one for the transition of
  each signal.
\<close>

theorem fetch_count_counterexample:
  "final fetches (lifetime id id sel_idle [StoreChange sel_socket_deleted]) = Inr 2
   \<and> 1 + signal_transitions (isDeleted sel_idle) (callSocketApi sel_idle)
           (snapshots [StoreChange sel_socket_deleted]) = 3"
  by (simp add: lifetime_readable rerender_readable readable_def final_Inr fetches_commit
      deps_commit initial_fields sel_socket_deleted_def sel_idle_def)

text \<open>
  C1, amended. Take a card that is mounted and then goes through any list of events:
  renders with new selected values, and dismissals of the snackbar. While its renders
  complete (the stats are neither \<open>undefined\<close> nor \<open>null\<close>), the number of
  \<open>fetchDashboardOverview\<close> dispatches is 1, for the mounting, plus the number of
  renders at which at least one of \<open>isDeleted\<close> and \<open>callSocketApi\<close> has a value other
  than at the previous render. Renders that change only the stats or the error flag,
  and dismissals, add nothing. When no render sees both signals changed, that is 1
  plus the number of value-changing transitions of either signal.
\<close>

theorem fetch_count:
  assumes "readable sel" and "list_all readable (snapshots evs)"
  shows "final fetches (lifetime statusLabel secondsToHms sel evs)
           = Inr (1 + trigger_changes (isDeleted sel) (callSocketApi sel) (snapshots evs))
         \<and> (\<not> flips_both (isDeleted sel) (callSocketApi sel) (snapshots evs)
              \<longrightarrow> final fetches (lifetime statusLabel secondsToHms sel evs)
                  = Inr (1 + signal_transitions (isDeleted sel) (callSocketApi sel) (snapshots evs)))"
proof -
  let ?s0 = "commit True sel (initial_card sel)"
  obtain s' where s': "run statusLabel secondsToHms ?s0 evs = Inr s'"
    and f: "fetches s' = fetches ?s0
              + trigger_changes (fst (fetchDeps ?s0)) (snd (fetchDeps ?s0)) (snapshots evs)"
    using run_fetches [OF assms(2), of statusLabel secondsToHms ?s0] by blast
  have "fetches ?s0 = 1" by (simp add: fetches_commit initial_fields)
  with f have "fetches s' = 1 + trigger_changes (isDeleted sel) (callSocketApi sel) (snapshots evs)"
    by (simp add: deps_commit)
  with s' assms(1)
  have "final fetches (lifetime statusLabel secondsToHms sel evs)
          = Inr (1 + trigger_changes (isDeleted sel) (callSocketApi sel) (snapshots evs))"
    by (simp add: lifetime_readable final_Inr)
  then show ?thesis
    by (simp add: trigger_changes_single)
qed

theorem fetch_count_witness:
  "readable sel_idle
   \<and> list_all readable (snapshots [StoreChange sel_socket, CloseIconClick, StoreChange sel_socket,
         StoreChange sel_failed, StoreChange sel_deleted])
   \<and> \<not> flips_both (isDeleted sel_idle) (callSocketApi sel_idle)
         (snapshots [StoreChange sel_socket, CloseIconClick, StoreChange sel_socket,
           StoreChange sel_failed, StoreChange sel_deleted])
   \<and> final fetches (lifetime id id sel_idle [StoreChange sel_socket, CloseIconClick,
         StoreChange sel_socket, StoreChange sel_failed, StoreChange sel_deleted]) = Inr 4
   \<and> signal_transitions (isDeleted sel_idle) (callSocketApi sel_idle)
         (snapshots [StoreChange sel_socket, CloseIconClick, StoreChange sel_socket,
           StoreChange sel_failed, StoreChange sel_deleted]) = 3"
proof -
  have 1: "readable sel_idle" by (simp add: readable_def sel_idle_def)
  have 2: "list_all readable (snapshots [StoreChange sel_socket, CloseIconClick,
             StoreChange sel_socket, StoreChange sel_failed, StoreChange sel_deleted])"
    by (simp add: readable_def sel_idle_def sel_socket_def sel_failed_def sel_deleted_def)
  have 3: "\<not> flips_both (isDeleted sel_idle) (callSocketApi sel_idle)
             (snapshots [StoreChange sel_socket, CloseIconClick, StoreChange sel_socket,
               StoreChange sel_failed, StoreChange sel_deleted])"
    by (simp add: sel_idle_def sel_socket_def sel_failed_def sel_deleted_def)
  from fetch_count [OF 1 2, of id id] 1 2 3 show ?thesis
    by (simp add: sel_idle_def sel_socket_def sel_failed_def sel_deleted_def)
qed

section \<open>The error notification\<close>

text \<open>
  C9. The \<open>useState\<close> cell starts as \<open>Boolean(isError)\<close>, and after the effects of the
  mounting the notification is visible if and only if the error flag was truthy at
  the first render.
\<close>

theorem mount_visibility:
  assumes "readable sel"
  shows "openSnackbar (initial_card sel) = to_boolean (isError sel)
         \<and> final openSnackbar (mount statusLabel secondsToHms sel) = Inr (to_boolean (isError sel))"
  using assms by (auto simp: mount_readable final_Inr openSnackbar_commit initial_fields)

theorem mount_visibility_witness:
  "readable sel_timeout \<and> readable sel_idle
   \<and> final openSnackbar (mount id id sel_timeout) = Inr True
   \<and> final openSnackbar (mount id id sel_idle) = Inr False"
proof -
  have 1: "readable sel_timeout" by (simp add: readable_def sel_timeout_def sel_blank_def)
  have 2: "readable sel_idle" by (simp add: readable_def sel_idle_def)
  from mount_visibility [OF 1, of id id] mount_visibility [OF 2, of id id] 1 2 show ?thesis
    by (simp add: sel_timeout_def sel_blank_def sel_idle_def)
qed

text \<open>
  C5, as the claim states it, fails: after a dismissal, a render whose error flag
  went from one truthy value (500) to another (503) makes the notification visible,
  where the strictly edge-triggered notifier stays hidden.
\<close>

theorem edge_notifier_counterexample:
  "final openSnackbar (lifetime id id sel_500 [SnackbarOnClose, StoreChange sel_503]) = Inr True
   \<and> edge_notifier (isError sel_500) (to_boolean (isError sel_500))
        [SnackbarOnClose, StoreChange sel_503] = False"
  by (simp add: lifetime_readable rerender_readable readable_def final_Inr openSnackbar_commit
      deps_commit dismiss_fields rising_edge_def sel_500_def sel_503_def sel_idle_def)

text \<open>
  C5, amended. For every trace of renders and dismissals the visibility of the
  notification is that of the notifier triggered by a change of value: visible from
  the mounting if and only if the flag is truthy then, made visible by each render
  at which the flag differs from the previous render's value and is truthy, hidden
  by each dismissal, and left as it is by every other render, so neither by a
  repeated value nor by the flag becoming falsy. When the flag is a boolean in every
  render, this is the strictly edge-triggered notifier.
\<close>

theorem notifier_follows_changes:
  assumes "readable sel" and "list_all readable (snapshots evs)"
  shows "final openSnackbar (lifetime statusLabel secondsToHms sel evs)
           = Inr (change_notifier (isError sel) (to_boolean (isError sel)) evs)
         \<and> (is_bool (isError sel) \<and> list_all (\<lambda>x. is_bool (isError x)) (snapshots evs)
              \<longrightarrow> change_notifier (isError sel) (to_boolean (isError sel)) evs
                  = edge_notifier (isError sel) (to_boolean (isError sel)) evs)"
proof -
  let ?s0 = "commit True sel (initial_card sel)"
  obtain s' where s': "run statusLabel secondsToHms ?s0 evs = Inr s'"
    and v: "openSnackbar s' = change_notifier (errorDeps ?s0) (openSnackbar ?s0) evs"
    using run_notifier [OF assms(2), of statusLabel secondsToHms ?s0] by blast
  have "openSnackbar ?s0 = to_boolean (isError sel)"
    by (auto simp: openSnackbar_commit initial_fields)
  with v have "openSnackbar s' = change_notifier (isError sel) (to_boolean (isError sel)) evs"
    by (simp add: deps_commit)
  with s' assms(1) show ?thesis
    by (simp add: lifetime_readable final_Inr change_notifier_bool)
qed

theorem notifier_follows_changes_witness:
  "readable sel_idle
   \<and> list_all readable (snapshots [StoreChange sel_failed, StoreChange sel_socket, CloseIconClick,
        StoreChange sel_idle, StoreChange sel_failed])
   \<and> is_bool (isError sel_failed)
   \<and> final openSnackbar (lifetime id id sel_failed [StoreChange sel_failed, StoreChange sel_socket,
        CloseIconClick]) = Inr False
   \<and> final openSnackbar (lifetime id id sel_idle [StoreChange sel_failed, StoreChange sel_socket,
        CloseIconClick, StoreChange sel_idle, StoreChange sel_failed]) = Inr True"
proof -
  have 1: "readable sel_idle" by (simp add: readable_def sel_idle_def)
  have 2: "readable sel_failed" by (simp add: readable_def sel_idle_def sel_failed_def)
  have 3: "list_all readable (snapshots [StoreChange sel_failed, StoreChange sel_socket,
             CloseIconClick, StoreChange sel_idle, StoreChange sel_failed])"
    by (simp add: readable_def sel_idle_def sel_socket_def sel_failed_def)
  have 4: "list_all readable (snapshots [StoreChange sel_failed, StoreChange sel_socket,
             CloseIconClick])"
    by (simp add: readable_def sel_idle_def sel_socket_def sel_failed_def)
  from notifier_follows_changes [OF 1 3, of id id] notifier_follows_changes [OF 2 4, of id id] 1 3
  show ?thesis
    by (simp add: sel_idle_def sel_socket_def sel_failed_def)
qed

text \<open>
  C4, as the claim states it, fails in its second half: after the user closes the
  notification, a render with another error message shows it again, although the
  flag has not been falsy in between.
\<close>

theorem rearm_counterexample:
  "final openSnackbar (lifetime id id sel_timeout [CloseIconClick, StoreChange sel_refused]) = Inr True
   \<and> \<not> has_rising_edge (isError sel_timeout) (snapshots [StoreChange sel_refused])"
  by (simp add: lifetime_readable rerender_readable readable_def final_Inr openSnackbar_commit
      deps_commit dismiss_fields rising_edge_def sel_timeout_def sel_refused_def sel_blank_def)

text \<open>
  C4, amended. In every state a card reaches, the notification is hidden if no
  truthy error flag has been seen, at the mounting or at any render since. And after
  a dismissal in any state it stays hidden through every list of events in which the
  flag never takes a new value that is truthy.
\<close>

theorem hidden_until_truthy_change:
  assumes "list_all readable (snapshots evs)"
  shows "(readable sel \<and> \<not> to_boolean (isError sel)
            \<and> list_all (\<lambda>x. \<not> to_boolean (isError x)) (snapshots evs)
          \<longrightarrow> final openSnackbar (lifetime statusLabel secondsToHms sel evs) = Inr False)
       \<and> (\<not> has_truthy_change (errorDeps s) (snapshots evs)
          \<longrightarrow> final openSnackbar (run statusLabel secondsToHms (setOpenSnackbar False s) evs) = Inr False)"
proof (intro conjI impI)
  assume a: "readable sel \<and> \<not> to_boolean (isError sel)
             \<and> list_all (\<lambda>x. \<not> to_boolean (isError x)) (snapshots evs)"
  let ?s0 = "commit True sel (initial_card sel)"
  obtain s' where s': "run statusLabel secondsToHms ?s0 evs = Inr s'"
    and v: "openSnackbar s' = change_notifier (errorDeps ?s0) (openSnackbar ?s0) evs"
    using run_notifier [OF assms, of statusLabel secondsToHms ?s0] by blast
  from a have "\<not> openSnackbar ?s0" by (simp add: openSnackbar_commit initial_fields)
  moreover from a have "\<not> has_truthy_change (errorDeps ?s0) (snapshots evs)"
    by (simp add: falsy_no_truthy_change)
  ultimately have "\<not> openSnackbar s'"
    using v change_notifier_stays_hidden by blast
  with s' a show "final openSnackbar (lifetime statusLabel secondsToHms sel evs) = Inr False"
    by (simp add: lifetime_readable final_Inr)
next
  assume b: "\<not> has_truthy_change (errorDeps s) (snapshots evs)"
  let ?s0 = "setOpenSnackbar False s"
  obtain s' where s': "run statusLabel secondsToHms ?s0 evs = Inr s'"
    and v: "openSnackbar s' = change_notifier (errorDeps ?s0) (openSnackbar ?s0) evs"
    using run_notifier [OF assms, of statusLabel secondsToHms ?s0] by blast
  have "\<not> openSnackbar ?s0" by (simp add: dismiss_fields)
  moreover from b have "\<not> has_truthy_change (errorDeps ?s0) (snapshots evs)"
    by (simp add: dismiss_fields)
  ultimately have "\<not> openSnackbar s'"
    using v change_notifier_stays_hidden by blast
  with s' show "final openSnackbar (run statusLabel secondsToHms ?s0 evs) = Inr False"
    by (simp add: final_Inr)
qed

theorem hidden_until_truthy_change_witness:
  "list_all readable (snapshots [StoreChange sel_socket, SnackbarOnClose, StoreChange sel_idle])
   \<and> readable sel_idle \<and> \<not> to_boolean (isError sel_idle)
   \<and> list_all (\<lambda>x. \<not> to_boolean (isError x))
         (snapshots [StoreChange sel_socket, SnackbarOnClose, StoreChange sel_idle])
   \<and> final openSnackbar (lifetime id id sel_idle
         [StoreChange sel_socket, SnackbarOnClose, StoreChange sel_idle]) = Inr False
   \<and> list_all readable (snapshots [StoreChange sel_timeout, StoreChange sel_blank])
   \<and> \<not> has_truthy_change (errorDeps (initial_card sel_timeout))
         (snapshots [StoreChange sel_timeout, StoreChange sel_blank])
   \<and> final openSnackbar (run id id (setOpenSnackbar False (initial_card sel_timeout))
         [StoreChange sel_timeout, StoreChange sel_blank]) = Inr False"
proof -
  have 1: "list_all readable (snapshots [StoreChange sel_socket, SnackbarOnClose, StoreChange sel_idle])"
    by (simp add: readable_def sel_idle_def sel_socket_def)
  have 2: "readable sel_idle \<and> \<not> to_boolean (isError sel_idle)
           \<and> list_all (\<lambda>x. \<not> to_boolean (isError x))
                (snapshots [StoreChange sel_socket, SnackbarOnClose, StoreChange sel_idle])"
    by (simp add: readable_def sel_idle_def sel_socket_def)
  have 3: "list_all readable (snapshots [StoreChange sel_timeout, StoreChange sel_blank])"
    by (simp add: readable_def sel_timeout_def sel_blank_def)
  have 4: "\<not> has_truthy_change (errorDeps (initial_card sel_timeout))
             (snapshots [StoreChange sel_timeout, StoreChange sel_blank])"
    by (simp add: initial_card_def sel_timeout_def sel_blank_def)
  from hidden_until_truthy_change
         [OF 1, where sel = sel_idle and statusLabel = id and secondsToHms = id]
       hidden_until_truthy_change
         [OF 3, where s = "initial_card sel_timeout" and statusLabel = id and secondsToHms = id]
       1 2 3 4
  show ?thesis by blast
qed

section \<open>The preview modal of Circuit\<close>

text \<open>
  C10. The \<open>open\<close> state of the preview modal starts false and \<open>handleClose\<close>, the one
  operation of \<open>Circuit\<close> that writes it, sets it to false: whatever the events, the
  modal is never open.
\<close>

theorem circuit_modal_never_open: "modal_open (circuit_run evs) = False"
proof -
  have "openModal (foldl circuit_step c evs) = False" if "openModal c = False" for c
    using that
  proof (induction evs arbitrary: c)
    case Nil
    then show ?case by simp
  next
    case (Cons e es)
    then show ?case by (cases e) (simp_all add: handleClose_def)
  qed
  then show ?thesis
    by (simp add: modal_open_def circuit_run_def circuit_initial_def)
qed

end
